theory Spec2Isabelle
  imports Complex_Main "HOL-Library.Word"
begin

section \<open>General helpers of \<^verbatim>\<open>common/utils/utils.h\<close>\<close>

subsection \<open>clamp\<close>


text \<open>
  One type the template admits is \<^verbatim>\<open>double\<close>. Of its values the comparisons tell apart the
  numbers, here a real number each, and NaN; by IEEE 754 every comparison \<^verbatim>\<open><\<close>, \<^verbatim>\<open>>\<close>,
  \<^verbatim>\<open><=\<close> with NaN on either side is false.
\<close>

datatype double = NaN | Finite real

instantiation double :: ord
begin

fun less_eq_double :: "double \<Rightarrow> double \<Rightarrow> bool" where
  "less_eq_double (Finite x) (Finite y) = (x \<le> y)"
| "less_eq_double x y = False"

fun less_double :: "double \<Rightarrow> double \<Rightarrow> bool" where
  "less_double (Finite x) (Finite y) = (x < y)"
| "less_double x y = False"

instance ..

end

subsection \<open>UnifiedTime\<close>

text \<open>
  \<^verbatim>\<open>struct UnifiedTime { typedef long long unsigned Value; Value value; ... }\<close>:
  a time or duration in milliseconds, stored in an unsigned 64-bit integer. The field
  \<^verbatim>\<open>value\<close> is named \<open>value'\<close> here.
\<close>

record UnifiedTime =
  value' :: "64 word"

text \<open>
  The constructor \<^verbatim>\<open>UnifiedTime(Value ms)\<close> is only declared in the header
  (``Constructor, from a specific number of ms''); its body is taken to store \<^verbatim>\<open>ms\<close> in
  the only field.
\<close>

definition UnifiedTime_ms :: "64 word \<Rightarrow> UnifiedTime" where
  "UnifiedTime_ms ms = \<lparr>value' = ms\<rparr>"

text \<open>A failed \<^verbatim>\<open>assert\<close> aborts the program; it is the only failure of this part.\<close>

datatype abort = AssertionFailed

text \<open>
  \<^verbatim>\<open>void operator /=(const long long unsigned factor) { assert(factor); value /= factor; }\<close>
  The object is updated in place: the model returns the updated object.
\<close>

definition div_assign :: "UnifiedTime \<Rightarrow> 64 word \<Rightarrow> abort + UnifiedTime" where
  "div_assign t factor =
     (if factor = 0 then Inl AssertionFailed
      else Inr (t\<lparr>value' := value' t div factor\<rparr>))"

text \<open>
  \<^verbatim>\<open>UnifiedTime operator /(const long long unsigned factor) const
  { assert(factor); return UnifiedTime(value / factor); }\<close>
\<close>

definition div_time :: "UnifiedTime \<Rightarrow> 64 word \<Rightarrow> abort + UnifiedTime" where
  "div_time t factor =
     (if factor = 0 then Inl AssertionFailed
      else Inr (UnifiedTime_ms (value' t div factor)))"

section \<open>The syntax tree of \<^verbatim>\<open>compiler/tree.h\<close>\<close>

subsection \<open>Types the header uses and does not declare\<close>

text \<open>
  Modelled from the spec: \<^verbatim>\<open>SourcePos\<close> is declared in \<^verbatim>\<open>compiler.h\<close>, which is not
  among the sources. The spec (3.1) gives a source position as row, column and character
  offset; \<^verbatim>\<open>unsigned\<close> is a 32-bit word.
\<close>

record SourcePos =
  row :: "32 word"
  column :: "32 word"
  character :: "32 word"

text \<open>
  Modelled from the spec: the enumerations \<^verbatim>\<open>AsebaBinaryOperator\<close> and
  \<^verbatim>\<open>AsebaUnaryOperator\<close> are declared in \<^verbatim>\<open>common/consts.h\<close>, which is not among the
  sources. The spec (3.2, 4.3) names four classes of binary operators (arithmetic, bitwise,
  comparison, logical) and the unary operators negation, absolute value, bitwise not and
  logical not.
\<close>

datatype AsebaBinaryOperator =
    ASEBA_OP_SHIFT_LEFT | ASEBA_OP_SHIFT_RIGHT | ASEBA_OP_ADD | ASEBA_OP_SUB
  | ASEBA_OP_MULT | ASEBA_OP_DIV | ASEBA_OP_MOD
  | ASEBA_OP_BIT_OR | ASEBA_OP_BIT_XOR | ASEBA_OP_BIT_AND
  | ASEBA_OP_EQUAL | ASEBA_OP_NOT_EQUAL | ASEBA_OP_BIGGER_THAN
  | ASEBA_OP_BIGGER_EQUAL_THAN | ASEBA_OP_SMALLER_THAN | ASEBA_OP_SMALLER_EQUAL_THAN
  | ASEBA_OP_OR | ASEBA_OP_AND

datatype AsebaUnaryOperator =
    ASEBA_UNARY_OP_SUB | ASEBA_UNARY_OP_ABS | ASEBA_UNARY_OP_BIT_NOT | ASEBA_UNARY_OP_NOT

subsection \<open>Nodes\<close>

text \<open>
  \<^verbatim>\<open>unsigned\<close> is a 32-bit word; \<^verbatim>\<open>int\<close> is a 32-bit word read in two's complement
  (\<open>sint\<close>).
\<close>

type_synonym unsigned = "32 word"

type_synonym int32 = "32 word"

text \<open>\<^verbatim>\<open>enum ReturnType { TYPE_UNIT = 0, TYPE_BOOL, TYPE_INT }\<close>\<close>

datatype ReturnType = TYPE_UNIT | TYPE_BOOL | TYPE_INT

text \<open>
  The concrete classes derived from \<^verbatim>\<open>Node\<close>, each with the data members it adds to the
  base class, in the order of the header; \<^verbatim>\<open>std::wstring\<close> is a string, \<^verbatim>\<open>std::vector\<close> a list.
  \<^item> \<open>IfWhenNode edgeSensitive endLine\<close>
  \<^item> \<open>FoldedIfWhenNode op edgeSensitive endLine\<close>
  \<^item> \<open>EmitNode eventId arrayAddr arraySize\<close>
  \<^item> \<open>ArrayWriteNode arrayAddr arraySize arrayName\<close>, and the same for \<open>ArrayReadNode\<close>
  \<^item> \<open>CallNode funcId argumentsAddr\<close>
  \<^item> \<open>MemoryVectorNode arrayAddr arraySize arrayName write\<close>
\<close>

datatype kind =
    BlockNode
  | ProgramNode
  | AssignmentNode
  | IfWhenNode bool unsigned
  | FoldedIfWhenNode AsebaBinaryOperator bool unsigned
  | WhileNode
  | FoldedWhileNode AsebaBinaryOperator
  | EventDeclNode unsigned
  | EmitNode unsigned unsigned unsigned
  | SubDeclNode unsigned
  | CallSubNode unsigned
  | BinaryArithmeticNode AsebaBinaryOperator
  | UnaryArithmeticNode AsebaUnaryOperator
  | ImmediateNode int32
  | StoreNode unsigned
  | LoadNode unsigned
  | ArrayWriteNode unsigned unsigned string
  | ArrayReadNode unsigned unsigned string
  | CallNode unsigned "unsigned list"
  | ReturnNode
  | StaticVectorNode "int32 list"
  | MemoryVectorNode unsigned unsigned string bool

text \<open>
  \<^verbatim>\<open>struct Node { ...; NodesVector children; SourcePos sourcePos; }\<close> with
  \<^verbatim>\<open>typedef std::vector<Node *> NodesVector\<close>: an object holds the data of its class, its
  position, and the addresses of its children. Objects live in a store; an address is the
  index of its object, and \<^verbatim>\<open>new\<close> puts the object at the next free address. An address
  outside the store points to no object (the null pointer is one).
\<close>

type_synonym addr = nat

record node =
  kind :: kind
  sourcePos :: SourcePos
  children :: "addr list"

type_synonym heap = "node list"

definition new_node :: "node \<Rightarrow> heap \<Rightarrow> addr \<times> heap" where
  "new_node n h = (length h, h @ [n])"

text \<open>
  Modelled from the spec: the class \<^verbatim>\<open>Error\<close> is declared in \<^verbatim>\<open>compiler.h\<close>, which is not
  among the sources. \<open>Error\<close> is the exception \<^verbatim>\<open>Error(sourcePos, message)\<close> as the header
  throws it. The other failures are those of the passes whose bodies are not among the
  sources: the kinds of errors of the spec (7), each with the position it carries; a type
  error names the expected and the found type (4.3).
\<close>

datatype error =
    Error SourcePos string
  | ParseTypeMismatch SourcePos
  | OutOfBoundsAccess SourcePos
  | TypeError SourcePos ReturnType ReturnType
  | InternalInvariantViolation SourcePos

subsection \<open>Copy constructors and \<^verbatim>\<open>shallowCopy\<close>\<close>

text \<open>
  No class declares a copy constructor, so \<^verbatim>\<open>X(*this)\<close> is the implicit one: it copies
  each data member of the class and of the base class, the vector of child addresses
  included.
\<close>

fun copy_kind :: "kind \<Rightarrow> kind" where
  "copy_kind BlockNode = BlockNode"
| "copy_kind ProgramNode = ProgramNode"
| "copy_kind AssignmentNode = AssignmentNode"
| "copy_kind (IfWhenNode edgeSensitive endLine) = IfWhenNode edgeSensitive endLine"
| "copy_kind (FoldedIfWhenNode op edgeSensitive endLine) = FoldedIfWhenNode op edgeSensitive endLine"
| "copy_kind WhileNode = WhileNode"
| "copy_kind (FoldedWhileNode op) = FoldedWhileNode op"
| "copy_kind (EventDeclNode eventId) = EventDeclNode eventId"
| "copy_kind (EmitNode eventId arrayAddr arraySize) = EmitNode eventId arrayAddr arraySize"
| "copy_kind (SubDeclNode subroutineId) = SubDeclNode subroutineId"
| "copy_kind (CallSubNode subroutineId) = CallSubNode subroutineId"
| "copy_kind (BinaryArithmeticNode op) = BinaryArithmeticNode op"
| "copy_kind (UnaryArithmeticNode op) = UnaryArithmeticNode op"
| "copy_kind (ImmediateNode v) = ImmediateNode v"
| "copy_kind (StoreNode varAddr) = StoreNode varAddr"
| "copy_kind (LoadNode varAddr) = LoadNode varAddr"
| "copy_kind (ArrayWriteNode arrayAddr arraySize arrayName) = ArrayWriteNode arrayAddr arraySize arrayName"
| "copy_kind (ArrayReadNode arrayAddr arraySize arrayName) = ArrayReadNode arrayAddr arraySize arrayName"
| "copy_kind (CallNode funcId argumentsAddr) = CallNode funcId argumentsAddr"
| "copy_kind ReturnNode = ReturnNode"
| "copy_kind (StaticVectorNode vs) = StaticVectorNode vs"
| "copy_kind (MemoryVectorNode arrayAddr arraySize arrayName write) =
     MemoryVectorNode arrayAddr arraySize arrayName write"

definition copy_node :: "node \<Rightarrow> node" where
  "copy_node n = \<lparr>kind = copy_kind (kind n), sourcePos = sourcePos n, children = children n\<rparr>"

text \<open>
  \<^verbatim>\<open>virtual X* shallowCopy() { return new X(*this); }\<close>, the same line in each of the 22
  concrete classes. \<open>None\<close>: the receiver is not an object of the store.
\<close>

definition shallowCopy :: "heap \<Rightarrow> addr \<Rightarrow> (addr \<times> heap) option" where
  "shallowCopy h this =
     (if this < length h then Some (new_node (copy_node (h ! this)) h) else None)"

subsection \<open>Constructors from another node\<close>

text \<open>
  \<^verbatim>\<open>LoadNode(const StoreNode* store) : Node(store->sourcePos), varAddr(store->varAddr) {}\<close>
  The new node starts with the empty vector of children of the base class constructor.
  \<open>None\<close>: the argument is not a \<^verbatim>\<open>StoreNode\<close> of the store, which the parameter's type
  excludes.
\<close>

definition LoadNode_from_StoreNode :: "heap \<Rightarrow> addr \<Rightarrow> (addr \<times> heap) option" where
  "LoadNode_from_StoreNode h store =
     (if store < length h then
        (case kind (h ! store) of
           StoreNode varAddr \<Rightarrow>
             Some (new_node \<lparr>kind = LoadNode varAddr, sourcePos = sourcePos (h ! store),
                             children = []\<rparr> h)
         | _ \<Rightarrow> None)
      else None)"

text \<open>
  \<^verbatim>\<open>dynamic_cast<ImmediateNode*>(p) != 0\<close>: the address is that of an object of class
  \<^verbatim>\<open>ImmediateNode\<close> (no class derives from it).
\<close>

definition is_ImmediateNode :: "heap \<Rightarrow> addr \<Rightarrow> bool" where
  "is_ImmediateNode h p =
     (p < length h \<and> (case kind (h ! p) of ImmediateNode v \<Rightarrow> True | _ \<Rightarrow> False))"

text \<open>
  \<^verbatim>\<open>ArrayReadNode(const ArrayWriteNode* write) :
    Node(write->sourcePos), arrayAddr(write->arrayAddr), arraySize(write->arraySize),
    arrayName(write->arrayName)
  {
    ImmediateNode* index;
    if (write->children.size() > 0 &&
        (index = dynamic_cast<ImmediateNode*>(write->children[0])) != 0)
      children.push_back(new ImmediateNode(*index));
    else
      throw Error(sourcePos, WFormatableString(
        L"Such operation is not permitted with non-immediate index"));
  }\<close>
  The object under construction takes the next free address, then the copy of the index
  is allocated and its address appended to the children. When the constructor throws, no
  object is left and the store is as before. \<open>None\<close>: the argument is not an
  \<^verbatim>\<open>ArrayWriteNode\<close> of the store, which the parameter's type excludes.
\<close>

definition ArrayReadNode_from_ArrayWriteNode ::
  "heap \<Rightarrow> addr \<Rightarrow> (error + addr \<times> heap) option" where
  "ArrayReadNode_from_ArrayWriteNode h write =
     (if write < length h then
        (case kind (h ! write) of
           ArrayWriteNode arrayAddr arraySize arrayName \<Rightarrow>
             (let (this, h1) = new_node \<lparr>kind = ArrayReadNode arrayAddr arraySize arrayName,
                                          sourcePos = sourcePos (h ! write), children = []\<rparr> h
              in if length (children (h ! write)) > 0
                    \<and> is_ImmediateNode h (children (h ! write) ! 0)
                 then
                   (let (index, h2) = new_node (copy_node (h ! (children (h ! write) ! 0))) h1
                    in Some (Inr (this,
                         h2[this := (h2 ! this)\<lparr>children := children (h2 ! this) @ [index]\<rparr>])))
                 else Some (Inl (Error (sourcePos (h1 ! this))
                         ''Such operation is not permitted with non-immediate index'')))
         | _ \<Rightarrow> None)
      else None)"

subsection \<open>The tree below a node\<close>

text \<open>
  The passes and \<^verbatim>\<open>dump\<close> read the objects reachable from a node through the vectors of
  children; what they compute depends on these objects and not on their addresses. A
  \<open>tree\<close> is the value of such a subtree: the data of the node, its position, and the trees
  of its children in order.
\<close>

datatype tree = Tree kind SourcePos "tree list"

text \<open>
  \<open>tree_at fuel h a\<close> reads the tree below address \<open>a\<close>, descending at most \<open>fuel\<close> levels.
  \<open>None\<close>: some address on the way points to no object, or the objects below \<open>a\<close> are
  nested deeper than \<open>fuel\<close> (as they are along a cycle, for every \<open>fuel\<close>).
\<close>

fun tree_at :: "nat \<Rightarrow> heap \<Rightarrow> addr \<Rightarrow> tree option" where
  "tree_at 0 h a = None"
| "tree_at (Suc fuel) h a =
     (if a < length h then
        (case those (map (tree_at fuel h) (children (h ! a))) of
           None \<Rightarrow> None
         | Some ts \<Rightarrow> Some (Tree (kind (h ! a)) (sourcePos (h ! a)) ts))
      else None)"

subsection \<open>\<^verbatim>\<open>deepCopy\<close>\<close>

text \<open>
  \<open>copy_each f h cs\<close> applies the copy \<open>f\<close> to the addresses \<open>cs\<close> from left to right,
  each in the store the one before left, and returns the addresses of the copies.
\<close>

fun copy_each ::
  "(heap \<Rightarrow> addr \<Rightarrow> (addr \<times> heap) option) \<Rightarrow> heap \<Rightarrow> addr list \<Rightarrow> (addr list \<times> heap) option" where
  "copy_each f h [] = Some ([], h)"
| "copy_each f h (c # cs) =
     (case f h c of
        None \<Rightarrow> None
      | Some (c', h1) \<Rightarrow>
          (case copy_each f h1 cs of
             None \<Rightarrow> None
           | Some (cs', h2) \<Rightarrow> Some (c' # cs', h2)))"

text \<open>
  Modelled from the spec: the body of \<^verbatim>\<open>Node::deepCopy\<close> (declared at line 60 of the header,
  overridden by no class) is not among the sources. The spec (4.1): ``deep copy:
  shallow-copy self, then recursively deep-copy each child''. The copy of each child
  replaces the child's address in the vector of the new node. The recursion follows the
  addresses in the store, so it carries fuel: \<open>None\<close> when the fuel runs out (or an address
  points to no object).
\<close>

primrec deepCopy :: "nat \<Rightarrow> heap \<Rightarrow> addr \<Rightarrow> (addr \<times> heap) option" where
  "deepCopy 0 = (\<lambda>h this. None)"
| "deepCopy (Suc fuel) = (\<lambda>h this.
     (case shallowCopy h this of
        None \<Rightarrow> None
      | Some (newCopy, h1) \<Rightarrow>
          (case copy_each (deepCopy fuel) h1 (children (h ! this)) of
             None \<Rightarrow> None
           | Some (cs, h2) \<Rightarrow> Some (newCopy, h2[newCopy := (h2 ! newCopy)\<lparr>children := cs\<rparr>]))))"

subsection \<open>\<^verbatim>\<open>dump\<close>\<close>

text \<open>
  \<^verbatim>\<open>toWString\<close>, ``Return a string representation of this node'', has a body in the header
  for three classes only:
  \<^verbatim>\<open>BlockNode\<close> (\<^verbatim>\<open>L"Block"\<close>), \<^verbatim>\<open>ProgramNode\<close> (\<^verbatim>\<open>L"ProgramBlock"\<close>) and \<^verbatim>\<open>ReturnNode\<close>
  (\<^verbatim>\<open>L"Return"\<close>). What the other bodies, the indentation and the override
  \<^verbatim>\<open>StaticVectorNode::dump\<close> print is not in the sources: they are parameters, functions of
  the data members of the node and of the indent.
\<close>

record printing =
  absent_toWString :: "kind \<Rightarrow> string"
  indentation :: "unsigned \<Rightarrow> string"
  StaticVectorNode_dump :: "int32 list \<Rightarrow> unsigned \<Rightarrow> string"

definition toWString :: "printing \<Rightarrow> kind \<Rightarrow> string" where
  "toWString P k =
     (case k of
        BlockNode \<Rightarrow> ''Block''
      | ProgramNode \<Rightarrow> ''ProgramBlock''
      | ReturnNode \<Rightarrow> ''Return''
      | _ \<Rightarrow> absent_toWString P k)"

text \<open>
  Modelled from the spec: the body of \<^verbatim>\<open>Node::dump\<close> (declared at line 78 of the header) is
  not among the sources. The spec (4.1): ``dump: pretty-print subtree to a stream with
  increasing indent''; the header: ``Dump this node and the rest of the tree''. The node
  prints its indentation, its \<^verbatim>\<open>toWString\<close> and a line end, then its children in order with
  the indent one higher. The result is the text appended to the stream; the indent, passed
  by reference, is back at its value when the call returns.
\<close>

fun dump :: "printing \<Rightarrow> tree \<Rightarrow> unsigned \<Rightarrow> string" where
  "dump P (Tree (StaticVectorNode vs) pos cs) indent = StaticVectorNode_dump P vs indent"
| "dump P (Tree k pos cs) indent =
     indentation P indent @ toWString P k @ [CHR 0x0A]
       @ concat (map (\<lambda>c. dump P c (indent + 1)) cs)"

text \<open>\<^verbatim>\<open>n->dump(dest, indent)\<close> for a node \<open>n\<close> of the store.\<close>

definition dump_at :: "printing \<Rightarrow> nat \<Rightarrow> heap \<Rightarrow> addr \<Rightarrow> unsigned \<Rightarrow> string option" where
  "dump_at P fuel h n indent = map_option (\<lambda>t. dump P t indent) (tree_at fuel h n)"

subsection \<open>\<^verbatim>\<open>typeCheck\<close>\<close>

text \<open>
  Modelled from the spec: the body of
  \<^verbatim>\<open>void expectType(const Node::ReturnType& expected, const Node::ReturnType& type) const\<close>
  is not among the sources. The header: ``Check for a specific type, throw an exception
  otherwise''; the exception is the type error of the spec (4.3), at the position of the
  node that checks.
\<close>

definition expectType :: "SourcePos \<Rightarrow> ReturnType \<Rightarrow> ReturnType \<Rightarrow> error + unit" where
  "expectType pos expected ty =
     (if ty = expected then Inr () else Inl (TypeError pos expected ty))"

text \<open>The results of the children from left to right: the first failure stops the pass.\<close>

fun in_order :: "(error + 'a) list \<Rightarrow> error + 'a list" where
  "in_order [] = Inr []"
| "in_order (Inl e # rs) = Inl e"
| "in_order (Inr x # rs) = (case in_order rs of Inl e \<Rightarrow> Inl e | Inr xs \<Rightarrow> Inr (x # xs))"

text \<open>
  Modelled from the spec: the classes of binary operators of the spec (4.3): arithmetic and
  bitwise operators, comparisons, and the logical operators \<^verbatim>\<open>and\<close> and \<^verbatim>\<open>or\<close>.
\<close>

datatype operator_class = Arithmetic | Bitwise | Comparison | Logical

fun binary_class :: "AsebaBinaryOperator \<Rightarrow> operator_class" where
  "binary_class ASEBA_OP_SHIFT_LEFT = Arithmetic"
| "binary_class ASEBA_OP_SHIFT_RIGHT = Arithmetic"
| "binary_class ASEBA_OP_ADD = Arithmetic"
| "binary_class ASEBA_OP_SUB = Arithmetic"
| "binary_class ASEBA_OP_MULT = Arithmetic"
| "binary_class ASEBA_OP_DIV = Arithmetic"
| "binary_class ASEBA_OP_MOD = Arithmetic"
| "binary_class ASEBA_OP_BIT_OR = Bitwise"
| "binary_class ASEBA_OP_BIT_XOR = Bitwise"
| "binary_class ASEBA_OP_BIT_AND = Bitwise"
| "binary_class ASEBA_OP_EQUAL = Comparison"
| "binary_class ASEBA_OP_NOT_EQUAL = Comparison"
| "binary_class ASEBA_OP_BIGGER_THAN = Comparison"
| "binary_class ASEBA_OP_BIGGER_EQUAL_THAN = Comparison"
| "binary_class ASEBA_OP_SMALLER_THAN = Comparison"
| "binary_class ASEBA_OP_SMALLER_EQUAL_THAN = Comparison"
| "binary_class ASEBA_OP_OR = Logical"
| "binary_class ASEBA_OP_AND = Logical"

text \<open>
  Modelled from the spec: the body of \<^verbatim>\<open>BinaryArithmeticNode::typeCheck\<close> is not among the
  sources. The spec (4.3): ``arithmetic and bitwise ops require both operands Int, produce
  Int; comparison ops require both Int, produce Bool; logical ops require both Bool,
  produce Bool''. \<open>ts\<close> are the types of the children; a node without its two children is
  outside what the pass handles.
\<close>

definition check_binary ::
  "SourcePos \<Rightarrow> AsebaBinaryOperator \<Rightarrow> ReturnType list \<Rightarrow> error + ReturnType" where
  "check_binary pos op ts =
     (case ts of
        [tleft, tright] \<Rightarrow>
          (case binary_class op of
             Logical \<Rightarrow>
               (case expectType pos TYPE_BOOL tleft of Inl e \<Rightarrow> Inl e | Inr _ \<Rightarrow>
                (case expectType pos TYPE_BOOL tright of Inl e \<Rightarrow> Inl e | Inr _ \<Rightarrow>
                   Inr TYPE_BOOL))
           | Comparison \<Rightarrow>
               (case expectType pos TYPE_INT tleft of Inl e \<Rightarrow> Inl e | Inr _ \<Rightarrow>
                (case expectType pos TYPE_INT tright of Inl e \<Rightarrow> Inl e | Inr _ \<Rightarrow>
                   Inr TYPE_BOOL))
           | _ \<Rightarrow>
               (case expectType pos TYPE_INT tleft of Inl e \<Rightarrow> Inl e | Inr _ \<Rightarrow>
                (case expectType pos TYPE_INT tright of Inl e \<Rightarrow> Inl e | Inr _ \<Rightarrow>
                   Inr TYPE_INT)))
      | _ \<Rightarrow> Inl (InternalInvariantViolation pos))"

text \<open>
  Modelled from the spec: the body of \<^verbatim>\<open>UnaryArithmeticNode::typeCheck\<close> is not among the
  sources. The spec (4.3): ``arithmetic/bitwise require Int, produce Int; logical not
  requires Bool, produces Bool''.
\<close>

definition check_unary ::
  "SourcePos \<Rightarrow> AsebaUnaryOperator \<Rightarrow> ReturnType list \<Rightarrow> error + ReturnType" where
  "check_unary pos op ts =
     (case ts of
        [t] \<Rightarrow>
          (case op of
             ASEBA_UNARY_OP_NOT \<Rightarrow>
               (case expectType pos TYPE_BOOL t of Inl e \<Rightarrow> Inl e | Inr _ \<Rightarrow> Inr TYPE_BOOL)
           | _ \<Rightarrow>
               (case expectType pos TYPE_INT t of Inl e \<Rightarrow> Inl e | Inr _ \<Rightarrow> Inr TYPE_INT))
      | _ \<Rightarrow> Inl (InternalInvariantViolation pos))"

text \<open>
  Modelled from the spec: the bodies of \<^verbatim>\<open>IfWhenNode::typeCheck\<close> and
  \<^verbatim>\<open>WhileNode::typeCheck\<close> are not among the sources. The spec (4.3): ``IfWhen/While:
  condition must be Bool''; the condition is the first child, and the statement has type
  Unit.
\<close>

definition check_condition :: "SourcePos \<Rightarrow> ReturnType list \<Rightarrow> error + ReturnType" where
  "check_condition pos ts =
     (case ts of
        [] \<Rightarrow> Inl (InternalInvariantViolation pos)
      | t # _ \<Rightarrow>
          (case expectType pos TYPE_BOOL t of Inl e \<Rightarrow> Inl e | Inr _ \<Rightarrow> Inr TYPE_UNIT))"

text \<open>
  Modelled from the spec: the bodies of \<^verbatim>\<open>Node::typeCheck\<close> (the last equation:
  \<^verbatim>\<open>BlockNode\<close>, \<^verbatim>\<open>ProgramNode\<close>, \<^verbatim>\<open>FoldedIfWhenNode\<close>, \<^verbatim>\<open>FoldedWhileNode\<close>,
  \<^verbatim>\<open>CallSubNode\<close>) and of the overrides of \<^verbatim>\<open>BinaryArithmeticNode\<close>,
  \<^verbatim>\<open>UnaryArithmeticNode\<close>, \<^verbatim>\<open>IfWhenNode\<close>, \<^verbatim>\<open>WhileNode\<close> and \<^verbatim>\<open>AssignmentNode\<close> are not
  among the sources. The spec (4.3): the pass runs bottom-up and fails with a type error on
  a violation; ``Assignment, statement-level nodes: Unit''. The children are checked first,
  from left to right, and their failure is the failure of the node.

  The other equations of \<^verbatim>\<open>typeCheck\<close> are the header's.
  \<^item> The inline bodies \<^verbatim>\<open>{ return TYPE_UNIT; }\<close> of \<^verbatim>\<open>EventDeclNode\<close>, \<^verbatim>\<open>EmitNode\<close>,
    \<^verbatim>\<open>SubDeclNode\<close>, \<^verbatim>\<open>StoreNode\<close>, \<^verbatim>\<open>ArrayWriteNode\<close>, \<^verbatim>\<open>CallNode\<close>, \<^verbatim>\<open>ReturnNode\<close>
    and \<^verbatim>\<open>VectorNode\<close> (inherited by \<^verbatim>\<open>MemoryVectorNode\<close>), and \<^verbatim>\<open>{ return TYPE_INT; }\<close>
    of \<^verbatim>\<open>ImmediateNode\<close>, \<^verbatim>\<open>LoadNode\<close> and \<^verbatim>\<open>ArrayReadNode\<close>: none looks at the children.
  \<^item> \<^verbatim>\<open>StaticVectorNode\<close> overrides \<^verbatim>\<open>typeCheck\<close>; the body is not among the sources and the
    spec does not describe it: its result is the parameter \<open>sv\<close>, a function of the values.
\<close>

fun typeCheck :: "(int32 list \<Rightarrow> error + ReturnType) \<Rightarrow> tree \<Rightarrow> error + ReturnType" where
  "typeCheck sv (Tree (EventDeclNode eventId) pos cs) = Inr TYPE_UNIT"
| "typeCheck sv (Tree (EmitNode eventId arrayAddr arraySize) pos cs) = Inr TYPE_UNIT"
| "typeCheck sv (Tree (SubDeclNode subroutineId) pos cs) = Inr TYPE_UNIT"
| "typeCheck sv (Tree (ImmediateNode v) pos cs) = Inr TYPE_INT"
| "typeCheck sv (Tree (StoreNode varAddr) pos cs) = Inr TYPE_UNIT"
| "typeCheck sv (Tree (LoadNode varAddr) pos cs) = Inr TYPE_INT"
| "typeCheck sv (Tree (ArrayWriteNode arrayAddr arraySize arrayName) pos cs) = Inr TYPE_UNIT"
| "typeCheck sv (Tree (ArrayReadNode arrayAddr arraySize arrayName) pos cs) = Inr TYPE_INT"
| "typeCheck sv (Tree (CallNode funcId argumentsAddr) pos cs) = Inr TYPE_UNIT"
| "typeCheck sv (Tree ReturnNode pos cs) = Inr TYPE_UNIT"
| "typeCheck sv (Tree (MemoryVectorNode arrayAddr arraySize arrayName write) pos cs) =
     Inr TYPE_UNIT"
| "typeCheck sv (Tree (StaticVectorNode vs) pos cs) = sv vs"
| "typeCheck sv (Tree (BinaryArithmeticNode op) pos cs) =
     (case in_order (map (typeCheck sv) cs) of
        Inl e \<Rightarrow> Inl e | Inr ts \<Rightarrow> check_binary pos op ts)"
| "typeCheck sv (Tree (UnaryArithmeticNode op) pos cs) =
     (case in_order (map (typeCheck sv) cs) of
        Inl e \<Rightarrow> Inl e | Inr ts \<Rightarrow> check_unary pos op ts)"
| "typeCheck sv (Tree (IfWhenNode edgeSensitive endLine) pos cs) =
     (case in_order (map (typeCheck sv) cs) of
        Inl e \<Rightarrow> Inl e | Inr ts \<Rightarrow> check_condition pos ts)"
| "typeCheck sv (Tree WhileNode pos cs) =
     (case in_order (map (typeCheck sv) cs) of
        Inl e \<Rightarrow> Inl e | Inr ts \<Rightarrow> check_condition pos ts)"
| "typeCheck sv (Tree AssignmentNode pos cs) =
     (case in_order (map (typeCheck sv) cs) of
        Inl e \<Rightarrow> Inl e | Inr ts \<Rightarrow> Inr TYPE_UNIT)"
| "typeCheck sv (Tree k pos cs) =
     (case in_order (map (typeCheck sv) cs) of
        Inl e \<Rightarrow> Inl e | Inr ts \<Rightarrow> Inr TYPE_UNIT)"

text \<open>
  The statement-level classes whose \<^verbatim>\<open>typeCheck\<close> looks at the children: the assignment,
  the blocks, the control flow and the subroutine call.
\<close>

fun composite_statement :: "kind \<Rightarrow> bool" where
  "composite_statement BlockNode = True"
| "composite_statement ProgramNode = True"
| "composite_statement AssignmentNode = True"
| "composite_statement (IfWhenNode edgeSensitive endLine) = True"
| "composite_statement (FoldedIfWhenNode op edgeSensitive endLine) = True"
| "composite_statement WhileNode = True"
| "composite_statement (FoldedWhileNode op) = True"
| "composite_statement (CallSubNode subroutineId) = True"
| "composite_statement k = False"

text \<open>The classes with a condition, which is their first child.\<close>

fun has_condition :: "kind \<Rightarrow> bool" where
  "has_condition (IfWhenNode edgeSensitive endLine) = True"
| "has_condition WhileNode = True"
| "has_condition k = False"

subsection \<open>\<^verbatim>\<open>getStackDepth\<close>\<close>

text \<open>
  The maximum of the depths of the children, 0 for no children; \<open>None\<close> when a child has
  none.
\<close>

fun max_depth :: "unsigned option list \<Rightarrow> unsigned option" where
  "max_depth [] = Some 0"
| "max_depth (None # ds) = None"
| "max_depth (Some d # ds) = (case max_depth ds of None \<Rightarrow> None | Some m \<Rightarrow> Some (max d m))"

text \<open>
  Modelled from the spec: of \<^verbatim>\<open>getStackDepth\<close>, only
  \<^verbatim>\<open>ReturnNode::getStackDepth() const { return 0; }\<close> has its body in the header; the other
  bodies are not among the sources. The header declares an override in
  \<^verbatim>\<open>FoldedIfWhenNode\<close>, \<^verbatim>\<open>FoldedWhileNode\<close>, \<^verbatim>\<open>BinaryArithmeticNode\<close>, \<^verbatim>\<open>ImmediateNode\<close>,
  \<^verbatim>\<open>LoadNode\<close>, \<^verbatim>\<open>CallNode\<close> and \<^verbatim>\<open>ReturnNode\<close>; every other class declares none and runs
  \<^verbatim>\<open>Node::getStackDepth\<close>. The spec (4.5): ``for leaf push operations (Immediate, Load) it
  is 1; for pure pop operations (Store) it is 1 (transient); for binary ops it is
  max(left.depth, 1 + right.depth); for folded comparison-branch it is max(left.depth,
  1 + right.depth); for Call it is the max of argument subtrees; for control flow it is the
  max over children''. The equations are these sentences, one for each class the spec
  names; \<^verbatim>\<open>StoreNode\<close> is among the classes without an override, and its equation is what
  the spec says \<^verbatim>\<open>Node::getStackDepth\<close> returns for it. A folded node is control flow as
  well: the maximum of the comparison and of its blocks. The last equation is the maximum
  over the children, for the control flow and the classes the spec does not name.
  The depth is \<^verbatim>\<open>unsigned\<close>. \<open>None\<close>: the node lacks a child that its class reads.
\<close>

fun getStackDepth :: "tree \<Rightarrow> unsigned option" where
  "getStackDepth (Tree ReturnNode pos cs) = Some 0"
| "getStackDepth (Tree (ImmediateNode v) pos cs) = Some 1"
| "getStackDepth (Tree (LoadNode varAddr) pos cs) = Some 1"
| "getStackDepth (Tree (StoreNode varAddr) pos cs) = Some 1"
| "getStackDepth (Tree (BinaryArithmeticNode op) pos cs) =
     (case map getStackDepth cs of
        Some left # Some right # ds \<Rightarrow> Some (max left (1 + right))
      | _ \<Rightarrow> None)"
| "getStackDepth (Tree (FoldedIfWhenNode op edgeSensitive endLine) pos cs) =
     (case map getStackDepth cs of
        Some left # Some right # ds \<Rightarrow>
          (case max_depth ds of None \<Rightarrow> None | Some m \<Rightarrow> Some (max (max left (1 + right)) m))
      | _ \<Rightarrow> None)"
| "getStackDepth (Tree (FoldedWhileNode op) pos cs) =
     (case map getStackDepth cs of
        Some left # Some right # ds \<Rightarrow>
          (case max_depth ds of None \<Rightarrow> None | Some m \<Rightarrow> Some (max (max left (1 + right)) m))
      | _ \<Rightarrow> None)"
| "getStackDepth (Tree (CallNode funcId argumentsAddr) pos cs) =
     max_depth (map getStackDepth cs)"
| "getStackDepth (Tree k pos cs) = max_depth (map getStackDepth cs)"

subsection \<open>\<^verbatim>\<open>treeExpand\<close>\<close>


















subsection \<open>Stores that agree\<close>

text \<open>
  \<open>same_from n h h'\<close>: the store \<open>h'\<close> has every address of \<open>h\<close>, and the same object as
  \<open>h\<close> at each address of \<open>h\<close> from \<open>n\<close> on. With \<open>n = 0\<close>, \<open>h'\<close> is \<open>h\<close> with new objects.
\<close>

definition same_from :: "nat \<Rightarrow> heap \<Rightarrow> heap \<Rightarrow> bool" where
  "same_from n h h' \<longleftrightarrow>
     length h \<le> length h' \<and> (\<forall>b. n \<le> b \<and> b < length h \<longrightarrow> h' ! b = h ! b)"

subsection \<open>A small store of objects\<close>

text \<open>
  The nodes of \<^verbatim>\<open>a[2]\<close> and \<^verbatim>\<open>a[x]\<close> as written to, for an array \<^verbatim>\<open>a\<close> of size 4 at
  address 10 and a variable \<^verbatim>\<open>x\<close> at address 5, and a store to the variable at address 7.
\<close>

definition pos_at :: "nat \<Rightarrow> nat \<Rightarrow> SourcePos" where
  "pos_at r c = \<lparr>row = of_nat r, column = of_nat c, character = of_nat c\<rparr>"

definition example_store :: heap where
  "example_store =
     [\<lparr>kind = ImmediateNode 2, sourcePos = pos_at 1 3, children = []\<rparr>,
      \<lparr>kind = ArrayWriteNode 10 4 ''a'', sourcePos = pos_at 1 1, children = [0]\<rparr>,
      \<lparr>kind = LoadNode 5, sourcePos = pos_at 2 3, children = []\<rparr>,
      \<lparr>kind = ArrayWriteNode 10 4 ''a'', sourcePos = pos_at 2 1, children = [2]\<rparr>,
      \<lparr>kind = StoreNode 7, sourcePos = pos_at 3 1, children = []\<rparr>]"

text \<open>
  Values for the parameters, for the examples: a \<^verbatim>\<open>StaticVectorNode\<close> of type Int, and a
  printer that writes \<^verbatim>\<open>Node\<close> for the classes without a body, one space for each level
  of indent and \<^verbatim>\<open>Vector\<close> for a \<^verbatim>\<open>StaticVectorNode\<close>.
\<close>

definition sv_int :: "int32 list \<Rightarrow> error + ReturnType" where
  "sv_int vs = Inr TYPE_INT"

definition example_printing :: printing where
  "example_printing =
     \<lparr>absent_toWString = (\<lambda>k. ''Node''),
      indentation = (\<lambda>i. replicate (unat i) CHR 0x20),
      StaticVectorNode_dump = (\<lambda>vs i. ''Vector'')\<rparr>"





section \<open>Properties of the helpers\<close>




text \<open>
  C10. Division of a time is guarded by the assertion on the factor: with a zero factor
  both operators stop at the assertion; with a nonzero factor they do not, the quotient
  object holds the unsigned 64-bit quotient of the value by the factor, and the in-place
  operator leaves the same value in the object.
\<close>

theorem unified_time_division_guarded:
  "div_time t 0 = Inl AssertionFailed \<and> div_assign t 0 = Inl AssertionFailed
   \<and> (factor \<noteq> 0 \<longrightarrow>
        (\<exists>q. div_time t factor = Inr q \<and> value' q = value' t div factor
           \<and> unat (value' q) = unat (value' t) div unat factor
           \<and> (\<exists>t'. div_assign t factor = Inr t' \<and> value' t' = value' q)))"
  by (simp add: div_time_def div_assign_def UnifiedTime_ms_def unat_div)

theorem unified_time_division_guarded_witness:
  "(3::64 word) \<noteq> 0
   \<and> div_time \<lparr>value' = 10\<rparr> 3 = Inr \<lparr>value' = 3\<rparr>
   \<and> div_assign \<lparr>value' = 10\<rparr> 3 = Inr \<lparr>value' = 3\<rparr>"
  using unified_time_division_guarded [of "\<lparr>value' = 10\<rparr>" 3]
  by (auto simp: div_time_def div_assign_def UnifiedTime_ms_def)

section \<open>Properties of the node constructors and copies\<close>

lemma copy_kind_same: "copy_kind k = k"
  by (cases k) simp_all

lemma copy_node_same: "copy_node n = n"
  by (simp add: copy_node_def copy_kind_same)

text \<open>
  C3. The constructor of an \<^verbatim>\<open>ArrayReadNode\<close> from an \<^verbatim>\<open>ArrayWriteNode\<close> throws exactly
  when the write node has no child or its first child is not an \<^verbatim>\<open>ImmediateNode\<close>.
  Otherwise it returns a new node with the array address, size and name (and the position)
  of the write node, whose only child is a new object equal to the index node; the objects
  that were in the store are unchanged.
\<close>

theorem ArrayReadNode_from_ArrayWriteNode_immediate_index:
  assumes "write < length h"
    and "kind (h ! write) = ArrayWriteNode arrayAddr arraySize arrayName"
  shows "((\<exists>e. ArrayReadNode_from_ArrayWriteNode h write = Some (Inl e))
            \<longleftrightarrow> (children (h ! write) = [] \<or> \<not> is_ImmediateNode h (children (h ! write) ! 0)))
       \<and> (children (h ! write) \<noteq> [] \<and> is_ImmediateNode h (children (h ! write) ! 0) \<longrightarrow>
            (\<exists>this index h'. ArrayReadNode_from_ArrayWriteNode h write = Some (Inr (this, h'))
               \<and> this = length h \<and> index = Suc (length h) \<and> length h' = length h + 2
               \<and> kind (h' ! this) = ArrayReadNode arrayAddr arraySize arrayName
               \<and> sourcePos (h' ! this) = sourcePos (h ! write)
               \<and> children (h' ! this) = [index]
               \<and> h' ! index = h ! (children (h ! write) ! 0)
               \<and> (\<forall>a<length h. h' ! a = h ! a)))"
  using assms
  by (auto simp: ArrayReadNode_from_ArrayWriteNode_def new_node_def copy_node_same nth_append
      is_ImmediateNode_def split: kind.splits)

theorem ArrayReadNode_from_ArrayWriteNode_immediate_index_witness:
  "1 < length example_store \<and> kind (example_store ! 1) = ArrayWriteNode 10 4 ''a''
   \<and> children (example_store ! 1) \<noteq> [] \<and> is_ImmediateNode example_store (children (example_store ! 1) ! 0)
   \<and> ArrayReadNode_from_ArrayWriteNode example_store 1
     = Some (Inr (5, example_store @
         [\<lparr>kind = ArrayReadNode 10 4 ''a'', sourcePos = pos_at 1 1, children = [6]\<rparr>,
          \<lparr>kind = ImmediateNode 2, sourcePos = pos_at 1 3, children = []\<rparr>]))
   \<and> 3 < length example_store \<and> kind (example_store ! 3) = ArrayWriteNode 10 4 ''a''
   \<and> \<not> is_ImmediateNode example_store (children (example_store ! 3) ! 0)
   \<and> ArrayReadNode_from_ArrayWriteNode example_store 3
     = Some (Inl (Error (pos_at 2 1) ''Such operation is not permitted with non-immediate index''))"
  using ArrayReadNode_from_ArrayWriteNode_immediate_index [of 1 example_store 10 4 "''a''"]
    ArrayReadNode_from_ArrayWriteNode_immediate_index [of 3 example_store 10 4 "''a''"]
  by (simp add: ArrayReadNode_from_ArrayWriteNode_def example_store_def new_node_def
      copy_node_def is_ImmediateNode_def)

text \<open>
  C7. The \<^verbatim>\<open>LoadNode\<close> constructed from a \<^verbatim>\<open>StoreNode\<close> is a new object with the variable
  address and the position of the store node and with no children. Children are the only
  addresses a node holds, so it refers to no node, the store node included; the objects
  that were in the store are unchanged.
\<close>

theorem LoadNode_from_StoreNode_copies_address:
  assumes "store < length h" and "kind (h ! store) = StoreNode varAddr"
  shows "\<exists>l h'. LoadNode_from_StoreNode h store = Some (l, h') \<and> l = length h \<and> l \<noteq> store
           \<and> length h' = Suc (length h)
           \<and> kind (h' ! l) = LoadNode varAddr
           \<and> sourcePos (h' ! l) = sourcePos (h ! store)
           \<and> children (h' ! l) = [] \<and> store \<notin> set (children (h' ! l))
           \<and> (\<forall>a<length h. h' ! a = h ! a)"
  using assms by (simp add: LoadNode_from_StoreNode_def new_node_def nth_append)

theorem LoadNode_from_StoreNode_copies_address_witness:
  "4 < length example_store \<and> kind (example_store ! 4) = StoreNode 7
   \<and> LoadNode_from_StoreNode example_store 4
     = Some (5, example_store @ [\<lparr>kind = LoadNode 7, sourcePos = pos_at 3 1, children = []\<rparr>])"
  using LoadNode_from_StoreNode_copies_address [of 4 example_store 7]
  by (simp add: LoadNode_from_StoreNode_def example_store_def new_node_def)

text \<open>
  C8. \<^verbatim>\<open>shallowCopy\<close> of a node returns a new object of the same class with the same data
  members and position, whose vector of children holds the same addresses as the node's:
  exactly one object is added to the store, so no child is duplicated, and the objects that
  were in the store are unchanged.
\<close>

theorem shallowCopy_attributes_and_shared_children:
  assumes "this < length h"
  shows "\<exists>c h'. shallowCopy h this = Some (c, h') \<and> c = length h \<and> c \<noteq> this
           \<and> length h' = Suc (length h)
           \<and> kind (h' ! c) = kind (h ! this)
           \<and> sourcePos (h' ! c) = sourcePos (h ! this)
           \<and> children (h' ! c) = children (h ! this)
           \<and> (\<forall>a<length h. h' ! a = h ! a)"
  using assms by (simp add: shallowCopy_def new_node_def copy_node_same nth_append)

theorem shallowCopy_attributes_and_shared_children_witness:
  "1 < length example_store
   \<and> shallowCopy example_store 1
     = Some (5, example_store @
         [\<lparr>kind = ArrayWriteNode 10 4 ''a'', sourcePos = pos_at 1 1, children = [0]\<rparr>])"
  using shallowCopy_attributes_and_shared_children [of 1 example_store]
  by (simp add: shallowCopy_def example_store_def new_node_def copy_node_def)

section \<open>Properties of \<^verbatim>\<open>deepCopy\<close> and \<^verbatim>\<open>dump\<close>\<close>

lemma same_from_refl: "same_from n h h"
  by (simp add: same_from_def)

lemma same_from_mono: "same_from n h h' \<Longrightarrow> n \<le> m \<Longrightarrow> same_from m h h'"
  by (simp add: same_from_def)

lemma same_from_chain:
  assumes "same_from 0 h1 h2" and "same_from n h2 h3"
  shows "same_from n h1 h3"
  using assms by (auto simp: same_from_def)

lemma those_map_cong:
  assumes "\<And>x. x \<in> set xs \<Longrightarrow> f x \<noteq> None \<Longrightarrow> g x = f x"
    and "those (map f xs) = Some ys"
  shows "those (map g xs) = Some ys"
  using assms
proof (induction xs arbitrary: ys)
  case Nil
  then show ?case by simp
next
  case (Cons x xs)
  then show ?case by (auto split: option.splits)
qed

text \<open>New objects in the store do not change the tree below an old address.\<close>

lemma tree_at_same_from:
  "tree_at fuel h a = Some t \<Longrightarrow> same_from 0 h h' \<Longrightarrow> tree_at fuel h' a = Some t"
proof (induction fuel arbitrary: a t)
  case 0
  then show ?case by simp
next
  case (Suc fuel)
  from Suc.prems have a: "a < length h" by (simp split: if_splits)
  with Suc.prems obtain ts where
    ts: "those (map (tree_at fuel h) (children (h ! a))) = Some ts"
    and t: "t = Tree (kind (h ! a)) (sourcePos (h ! a)) ts"
    by (auto split: option.splits)
  from a Suc.prems(2) have eq: "h' ! a = h ! a" and a': "a < length h'"
    by (auto simp: same_from_def)
  have "those (map (tree_at fuel h') (children (h ! a))) = Some ts"
  proof (rule those_map_cong [OF _ ts])
    fix x assume "tree_at fuel h x \<noteq> None"
    then obtain u where "tree_at fuel h x = Some u" by auto
    with Suc.IH [OF this Suc.prems(2)] show "tree_at fuel h' x = tree_at fuel h x" by simp
  qed
  with eq a' t show ?case by simp
qed

lemma those_tree_at_same_from:
  assumes "those (map (tree_at fuel h) cs) = Some ts" and "same_from 0 h h'"
  shows "those (map (tree_at fuel h') cs) = Some ts"
proof (rule those_map_cong [OF _ assms(1)])
  fix x assume "tree_at fuel h x \<noteq> None"
  then obtain u where "tree_at fuel h x = Some u" by auto
  with tree_at_same_from [OF this assms(2)] show "tree_at fuel h' x = tree_at fuel h x" by simp
qed

text \<open>
  Copying the children one after the other: when the copy \<open>f\<close> of one node returns a new
  node with the same tree, made of new objects only, so does the copy of a list of nodes.
\<close>

lemma copy_each_trees:
  assumes step: "\<And>h a t. tree_at fuel h a = Some t \<Longrightarrow>
      \<exists>a' h'. f h a = Some (a', h') \<and> same_from 0 h h'
        \<and> (\<forall>h''. same_from (length h) h' h'' \<longrightarrow> tree_at fuel h'' a' = Some t)"
    and "those (map (tree_at fuel h) cs) = Some ts"
  shows "\<exists>cs' h'. copy_each f h cs = Some (cs', h') \<and> same_from 0 h h'
        \<and> (\<forall>h''. same_from (length h) h' h'' \<longrightarrow> those (map (tree_at fuel h'') cs') = Some ts)"
  using assms(2)
proof (induction cs arbitrary: h ts)
  case Nil
  then show ?case by (auto simp: same_from_refl)
next
  case (Cons c cs)
  from Cons.prems obtain t ts' where
    t: "tree_at fuel h c = Some t" and ts': "those (map (tree_at fuel h) cs) = Some ts'"
    and ts: "ts = t # ts'"
    by (auto split: option.splits)
  from step [OF t] obtain c' h1 where
    c': "f h c = Some (c', h1)" and h1: "same_from 0 h h1"
    and r1: "\<And>h''. same_from (length h) h1 h'' \<Longrightarrow> tree_at fuel h'' c' = Some t"
    by blast
  from those_tree_at_same_from [OF ts' h1]
  have "those (map (tree_at fuel h1) cs) = Some ts'" .
  from Cons.IH [OF this] obtain cs' h2 where
    cs': "copy_each f h1 cs = Some (cs', h2)" and h2: "same_from 0 h1 h2"
    and r2: "\<And>h''. same_from (length h1) h2 h'' \<Longrightarrow> those (map (tree_at fuel h'') cs') = Some ts'"
    by blast
  have len: "length h \<le> length h1" using h1 by (simp add: same_from_def)
  have "copy_each f h (c # cs) = Some (c' # cs', h2)" using c' cs' by simp
  moreover have "same_from 0 h h2" using h1 h2 by (rule same_from_chain)
  moreover have "those (map (tree_at fuel h'') (c' # cs')) = Some ts"
    if h'': "same_from (length h) h2 h''" for h''
  proof -
    have "same_from (length h) h1 h''" using h2 h'' by (rule same_from_chain)
    then have "tree_at fuel h'' c' = Some t" by (rule r1)
    moreover have "same_from (length h1) h2 h''" using h'' len by (rule same_from_mono)
    then have "those (map (tree_at fuel h'') cs') = Some ts'" by (rule r2)
    ultimately show ?thesis using ts by simp
  qed
  ultimately show ?case by blast
qed

text \<open>
  \<^verbatim>\<open>deepCopy\<close> of a node that has a tree within the fuel returns, and the new node has the
  same tree, whatever happens later to the objects that were in the store before.
\<close>

lemma deepCopy_tree:
  "tree_at fuel h a = Some t \<Longrightarrow>
     \<exists>a' h'. deepCopy fuel h a = Some (a', h') \<and> same_from 0 h h'
        \<and> (\<forall>h''. same_from (length h) h' h'' \<longrightarrow> tree_at fuel h'' a' = Some t)"
proof (induction fuel arbitrary: h a t)
  case 0
  then show ?case by simp
next
  case (Suc fuel)
  from Suc.prems have a: "a < length h" by (simp split: if_splits)
  with Suc.prems obtain ts where
    ts: "those (map (tree_at fuel h) (children (h ! a))) = Some ts"
    and t: "t = Tree (kind (h ! a)) (sourcePos (h ! a)) ts"
    by (auto split: option.splits)
  define c where "c = length h"
  define h1 where "h1 = h @ [h ! a]"
  have sc: "shallowCopy h a = Some (c, h1)"
    using a by (simp add: shallowCopy_def new_node_def copy_node_same c_def h1_def)
  have h1: "same_from 0 h h1" by (simp add: same_from_def h1_def nth_append)
  have len1: "length h1 = Suc c" by (simp add: h1_def c_def)
  have h1c: "h1 ! c = h ! a" by (simp add: h1_def c_def)
  from those_tree_at_same_from [OF ts h1]
  have "those (map (tree_at fuel h1) (children (h ! a))) = Some ts" .
  from copy_each_trees [of fuel "deepCopy fuel", OF Suc.IH this] obtain cs' h2 where
    cs': "copy_each (deepCopy fuel) h1 (children (h ! a)) = Some (cs', h2)"
    and h2: "same_from 0 h1 h2"
    and r2: "\<And>h''. same_from (length h1) h2 h'' \<Longrightarrow> those (map (tree_at fuel h'') cs') = Some ts"
    by blast
  define h3 where "h3 = h2[c := (h2 ! c)\<lparr>children := cs'\<rparr>]"
  have len2: "Suc c \<le> length h2" using h2 len1 by (simp add: same_from_def)
  have h2c: "h2 ! c = h ! a" using h2 len1 h1c by (simp add: same_from_def)
  have dc: "deepCopy (Suc fuel) h a = Some (c, h3)"
    using sc cs' by (simp add: h3_def)
  have "same_from 0 h h2" using h1 h2 by (rule same_from_chain)
  then have s3: "same_from 0 h h3"
    by (auto simp: same_from_def h3_def c_def)
  have "tree_at (Suc fuel) h'' c = Some t" if h'': "same_from (length h) h3 h''" for h''
  proof -
    have l3: "length h3 = length h2" by (simp add: h3_def)
    have c'': "c < length h''" using h'' len2 l3 by (simp add: same_from_def)
    have "h'' ! c = h3 ! c" using h'' len2 l3 by (simp add: same_from_def c_def)
    also have "\<dots> = (h ! a)\<lparr>children := cs'\<rparr>" using len2 h2c by (simp add: h3_def)
    finally have n: "h'' ! c = (h ! a)\<lparr>children := cs'\<rparr>" .
    have "same_from (length h1) h2 h''"
      using h'' l3 len1 by (auto simp: same_from_def h3_def c_def)
    then have "those (map (tree_at fuel h'') cs') = Some ts" by (rule r2)
    with c'' n t show ?thesis by simp
  qed
  with dc s3 show ?case by blast
qed

lemma deepCopy_address: "deepCopy fuel h a = Some (c, h') \<Longrightarrow> c = length h"
  by (cases fuel) (auto simp: shallowCopy_def new_node_def split: option.splits if_splits)

text \<open>
  C6. For a node \<open>n\<close> of the store with a tree \<open>t\<close> below it, \<^verbatim>\<open>deepCopy\<close> returns a new node,
  and \<^verbatim>\<open>dump\<close> of the new node writes the same text as \<^verbatim>\<open>dump\<close> of \<open>n\<close>, at every indent and
  for every printer of the classes; \<^verbatim>\<open>dump\<close> of \<open>n\<close> writes after the copy what it wrote
  before.
\<close>

theorem dump_deepCopy_same:
  assumes "tree_at fuel h n = Some t"
  shows "\<exists>c h'. deepCopy fuel h n = Some (c, h') \<and> c = length h
           \<and> dump_at P fuel h n indent = Some (dump P t indent)
           \<and> dump_at P fuel h' c indent = dump_at P fuel h n indent
           \<and> dump_at P fuel h' n indent = dump_at P fuel h n indent"
proof -
  from deepCopy_tree [OF assms] obtain c h' where
    dc: "deepCopy fuel h n = Some (c, h')" and s: "same_from 0 h h'"
    and r: "\<And>h''. same_from (length h) h' h'' \<Longrightarrow> tree_at fuel h'' c = Some t"
    by blast
  have "tree_at fuel h' c = Some t" by (rule r) (rule same_from_refl)
  moreover have "tree_at fuel h' n = Some t" using assms s by (rule tree_at_same_from)
  moreover have "c = length h" using dc by (rule deepCopy_address)
  ultimately show ?thesis using dc assms by (simp add: dump_at_def)
qed

theorem dump_deepCopy_same_witness:
  "tree_at 2 example_store 1
     = Some (Tree (ArrayWriteNode 10 4 ''a'') (pos_at 1 1) [Tree (ImmediateNode 2) (pos_at 1 3) []])
   \<and> deepCopy 2 example_store 1
     = Some (5, example_store @
         [\<lparr>kind = ArrayWriteNode 10 4 ''a'', sourcePos = pos_at 1 1, children = [6]\<rparr>,
          \<lparr>kind = ImmediateNode 2, sourcePos = pos_at 1 3, children = []\<rparr>])
   \<and> dump_at example_printing 2 (example_store @
         [\<lparr>kind = ArrayWriteNode 10 4 ''a'', sourcePos = pos_at 1 1, children = [6]\<rparr>,
          \<lparr>kind = ImmediateNode 2, sourcePos = pos_at 1 3, children = []\<rparr>]) 5 0
     = dump_at example_printing 2 example_store 1 0
   \<and> dump_at example_printing 2 example_store 1 0
     = Some (''Node'' @ [CHR 0x0A] @ '' Node'' @ [CHR 0x0A])"
  using dump_deepCopy_same [of 2 example_store 1 _ example_printing 0]
  by (simp add: numeral_2_eq_2 example_store_def shallowCopy_def new_node_def copy_node_def
      dump_at_def toWString_def example_printing_def)

section \<open>Properties of the passes\<close>

text \<open>
  C2. \<^verbatim>\<open>typeCheck\<close> returns \<^verbatim>\<open>TYPE_INT\<close> for every \<^verbatim>\<open>ImmediateNode\<close>, \<^verbatim>\<open>LoadNode\<close> and
  \<^verbatim>\<open>ArrayReadNode\<close>, and \<^verbatim>\<open>TYPE_UNIT\<close> for every \<^verbatim>\<open>StoreNode\<close>, \<^verbatim>\<open>ArrayWriteNode\<close>,
  \<^verbatim>\<open>EventDeclNode\<close>, \<^verbatim>\<open>EmitNode\<close>, \<^verbatim>\<open>SubDeclNode\<close>, \<^verbatim>\<open>CallNode\<close> and \<^verbatim>\<open>ReturnNode\<close>, whatever
  their children. For an \<^verbatim>\<open>AssignmentNode\<close> and the other statement-level nodes, which check
  their children, the type it returns is \<^verbatim>\<open>TYPE_UNIT\<close> and no other; and it does return
  \<^verbatim>\<open>TYPE_UNIT\<close> when the children have types \<open>ts\<close> and, for a node with a condition, the
  condition has type \<^verbatim>\<open>TYPE_BOOL\<close>.
\<close>

theorem typeCheck_types_of_nodes:
  "typeCheck sv (Tree (ImmediateNode v) pos cs) = Inr TYPE_INT
   \<and> typeCheck sv (Tree (LoadNode varAddr) pos cs) = Inr TYPE_INT
   \<and> typeCheck sv (Tree (ArrayReadNode arrayAddr arraySize arrayName) pos cs) = Inr TYPE_INT
   \<and> typeCheck sv (Tree (StoreNode varAddr) pos cs) = Inr TYPE_UNIT
   \<and> typeCheck sv (Tree (ArrayWriteNode arrayAddr arraySize arrayName) pos cs) = Inr TYPE_UNIT
   \<and> typeCheck sv (Tree (EventDeclNode eventId) pos cs) = Inr TYPE_UNIT
   \<and> typeCheck sv (Tree (EmitNode eventId arrayAddr arraySize) pos cs) = Inr TYPE_UNIT
   \<and> typeCheck sv (Tree (SubDeclNode subroutineId) pos cs) = Inr TYPE_UNIT
   \<and> typeCheck sv (Tree (CallNode funcId argumentsAddr) pos cs) = Inr TYPE_UNIT
   \<and> typeCheck sv (Tree ReturnNode pos cs) = Inr TYPE_UNIT
   \<and> (composite_statement k \<longrightarrow>
         (\<forall>ty. typeCheck sv (Tree k pos cs) = Inr ty \<longrightarrow> ty = TYPE_UNIT))
   \<and> (composite_statement k \<and> in_order (map (typeCheck sv) cs) = Inr ts
         \<and> (has_condition k \<longrightarrow> ts \<noteq> [] \<and> hd ts = TYPE_BOOL) \<longrightarrow>
         typeCheck sv (Tree k pos cs) = Inr TYPE_UNIT)"
  by (cases k) (auto simp: check_condition_def expectType_def split: sum.splits list.splits)

theorem typeCheck_types_of_nodes_witness:
  "composite_statement AssignmentNode
   \<and> in_order (map (typeCheck sv_int)
        [Tree (StoreNode 7) (pos_at 3 1) [], Tree (ImmediateNode 1) (pos_at 3 5) []])
       = Inr [TYPE_UNIT, TYPE_INT]
   \<and> \<not> has_condition AssignmentNode
   \<and> typeCheck sv_int (Tree AssignmentNode (pos_at 3 1)
        [Tree (StoreNode 7) (pos_at 3 1) [], Tree (ImmediateNode 1) (pos_at 3 5) []]) = Inr TYPE_UNIT
   \<and> composite_statement (IfWhenNode False 4)
   \<and> in_order (map (typeCheck sv_int)
        [Tree (BinaryArithmeticNode ASEBA_OP_EQUAL) (pos_at 1 6)
           [Tree (LoadNode 5) (pos_at 1 4) [], Tree (ImmediateNode 0) (pos_at 1 9) []],
         Tree BlockNode (pos_at 2 1) []])
       = Inr [TYPE_BOOL, TYPE_UNIT]
   \<and> typeCheck sv_int (Tree (IfWhenNode False 4) (pos_at 1 1)
        [Tree (BinaryArithmeticNode ASEBA_OP_EQUAL) (pos_at 1 6)
           [Tree (LoadNode 5) (pos_at 1 4) [], Tree (ImmediateNode 0) (pos_at 1 9) []],
         Tree BlockNode (pos_at 2 1) []]) = Inr TYPE_UNIT"
  using typeCheck_types_of_nodes [where sv = sv_int and k = AssignmentNode and pos = "pos_at 3 1"
      and cs = "[Tree (StoreNode 7) (pos_at 3 1) [], Tree (ImmediateNode 1) (pos_at 3 5) []]"
      and ts = "[TYPE_UNIT, TYPE_INT]"]
    typeCheck_types_of_nodes [where sv = sv_int and k = "IfWhenNode False 4" and pos = "pos_at 1 1"
      and cs = "[Tree (BinaryArithmeticNode ASEBA_OP_EQUAL) (pos_at 1 6)
           [Tree (LoadNode 5) (pos_at 1 4) [], Tree (ImmediateNode 0) (pos_at 1 9) []],
         Tree BlockNode (pos_at 2 1) []]"
      and ts = "[TYPE_BOOL, TYPE_UNIT]"]
  by (simp add: check_condition_def check_binary_def expectType_def)

text \<open>
  C5. \<^verbatim>\<open>getStackDepth\<close> returns 1 for every \<^verbatim>\<open>ImmediateNode\<close>, every \<^verbatim>\<open>LoadNode\<close> and every
  \<^verbatim>\<open>StoreNode\<close>, whatever their children. A \<^verbatim>\<open>BinaryArithmeticNode\<close> with the children left
  and right, each with a depth, returns the maximum of the depth of left and of 1 plus the
  depth of right (in \<^verbatim>\<open>unsigned\<close> arithmetic).
\<close>

theorem getStackDepth_of_nodes:
  "getStackDepth (Tree (ImmediateNode v) pos cs) = Some 1
   \<and> getStackDepth (Tree (LoadNode varAddr) pos cs) = Some 1
   \<and> getStackDepth (Tree (StoreNode varAddr) pos cs) = Some 1
   \<and> (getStackDepth left = Some l \<and> getStackDepth right = Some r \<longrightarrow>
        getStackDepth (Tree (BinaryArithmeticNode op) pos [left, right]) = Some (max l (1 + r)))"
  by simp

theorem getStackDepth_of_nodes_witness:
  "getStackDepth (Tree (LoadNode 5) (pos_at 1 1) []) = Some 1
   \<and> getStackDepth (Tree (StoreNode 7) (pos_at 1 3) []) = Some 1
   \<and> getStackDepth (Tree (BinaryArithmeticNode ASEBA_OP_ADD) (pos_at 1 5)
        [Tree (ImmediateNode 2) (pos_at 1 3) [], Tree (ImmediateNode 3) (pos_at 1 7) []]) = Some 2
   \<and> getStackDepth (Tree (BinaryArithmeticNode ASEBA_OP_ADD) (pos_at 1 3)
        [Tree (LoadNode 5) (pos_at 1 1) [],
         Tree (BinaryArithmeticNode ASEBA_OP_ADD) (pos_at 1 5)
           [Tree (ImmediateNode 2) (pos_at 1 3) [], Tree (ImmediateNode 3) (pos_at 1 7) []]]) = Some 3"
  using getStackDepth_of_nodes [where left = "Tree (LoadNode 5) (pos_at 1 1) []" and l = 1
      and right = "Tree (BinaryArithmeticNode ASEBA_OP_ADD) (pos_at 1 5)
        [Tree (ImmediateNode 2) (pos_at 1 3) [], Tree (ImmediateNode 3) (pos_at 1 7) []]" and r = 2
      and op = ASEBA_OP_ADD and pos = "pos_at 1 3" and varAddr = 7 and cs = "[]"]
  by simp

section \<open>Properties of the tree expansion\<close>









end
